theory Spec2Isabelle
  imports Complex_Main "HOL-Library.Sublist" "HOL-Library.Word"
begin

section \<open>Sentiment-to-action decision engine (hw3/app.js)\<close>

text \<open>
  A finite JavaScript number is modelled by the real it stands for, and a comparison of
  two numbers is the comparison of their values. The function is embedded twice. In
  \<open>determineBusinessAction\<close> the difference \<open>1.0 - confidence\<close> is exact: this is
  the arithmetic of the specification, whose confidence is a real. In
  \<open>determineBusinessAction64\<close> the arguments are binary64 numbers, a decimal literal of
  the source stands for the nearest binary64 number, and the difference is rounded to
  binary64 as the engine does it. NaN and the infinities are not numbers of the model.
  JavaScript strings are modelled by \<open>string\<close>, one \<open>char\<close> per code unit, and
  \<open>===\<close> on strings is equality of the character lists (case-sensitive); the review
  text, which may hold any UTF-16 code unit, has a model of its own below.
\<close>

subsection \<open>The action record\<close>

record action =
  actionCode :: string
  uiMessage :: string
  uiColor :: string
  icon :: string
  cssClass :: string

text \<open>The three object literals returned by \<open>determineBusinessAction\<close>.\<close>

definition offerCoupon :: action where
  "offerCoupon =
     \<lparr> actionCode = ''OFFER_COUPON'',
       uiMessage = ''We are truly sorry for your negative experience. Please accept this 50% discount coupon.'',
       uiColor = ''#dc3545'',
       icon = ''fa-fire'',
       cssClass = ''coupon'' \<rparr>"

definition requestFeedback :: action where
  "requestFeedback =
     \<lparr> actionCode = ''REQUEST_FEEDBACK'',
       uiMessage = ''Thank you for your feedback! Could you tell us how we can improve?'',
       uiColor = ''#6b7280'',
       icon = ''fa-clipboard-question'',
       cssClass = ''feedback'' \<rparr>"

definition askReferral :: action where
  "askReferral =
     \<lparr> actionCode = ''ASK_REFERRAL'',
       uiMessage = ''We're thrilled you enjoyed your experience! Refer a friend and both of you will earn rewards.'',
       uiColor = ''#3b82f6'',
       icon = ''fa-user-friends'',
       cssClass = ''referral'' \<rparr>"

subsection \<open>determineBusinessAction in exact arithmetic\<close>

text \<open>
  The local variable \<open>normalizedScore\<close> of the source, as a function of the two
  arguments: the first \<open>if\<close>/\<open>else if\<close>/\<open>else\<close> of the body.
\<close>

definition normalizedScore :: "real \<Rightarrow> string \<Rightarrow> real" where
  "normalizedScore confidence label =
     (if label = ''POSITIVE'' then confidence
      else if label = ''NEGATIVE'' then 1.0 - confidence
      else 0.5)"

text \<open>The thresholds: the second \<open>if\<close>/\<open>else if\<close>/\<open>else\<close> of the body.\<close>

definition determineBusinessAction :: "real \<Rightarrow> string \<Rightarrow> action" where
  "determineBusinessAction confidence label =
     (if normalizedScore confidence label \<le> 0.4 then offerCoupon
      else if normalizedScore confidence label < 0.7 then requestFeedback
      else askReferral)"

subsection \<open>determineBusinessAction in binary64 arithmetic\<close>

text \<open>
  Rounding to the nearest integer, a tie going to the even one; the binary exponent of a
  number, not below that of the subnormal numbers; and the rounding of a real to the
  nearest binary64 number (53 significant bits, ties to even). A result beyond the
  largest finite binary64 number is outside the model.
\<close>

definition roundToEven :: "real \<Rightarrow> int" where
  "roundToEven x =
     (if x - of_int \<lfloor>x\<rfloor> < 1 / 2 then \<lfloor>x\<rfloor>
      else if 1 / 2 < x - of_int \<lfloor>x\<rfloor> then \<lfloor>x\<rfloor> + 1
      else if even \<lfloor>x\<rfloor> then \<lfloor>x\<rfloor> else \<lfloor>x\<rfloor> + 1)"

definition exponent64 :: "real \<Rightarrow> int" where
  "exponent64 x = max \<lfloor>log 2 \<bar>x\<bar>\<rfloor> (- 1022)"

definition round64 :: "real \<Rightarrow> real" where
  "round64 x =
     (if x = 0 then 0
      else of_int (roundToEven (x / 2 powi (exponent64 x - 52))) * 2 powi (exponent64 x - 52))"

definition isBinary64 :: "real \<Rightarrow> bool" where
  "isBinary64 x = (round64 x = x)"

text \<open>
  The operator \<open>-\<close> on two numbers, and the function with the source's literals
  \<open>1.0\<close>, \<open>0.5\<close>, \<open>0.4\<close> and \<open>0.7\<close> read as binary64 numbers.
\<close>

definition minus64 :: "real \<Rightarrow> real \<Rightarrow> real" where
  "minus64 a b = round64 (a - b)"

definition normalizedScore64 :: "real \<Rightarrow> string \<Rightarrow> real" where
  "normalizedScore64 confidence label =
     (if label = ''POSITIVE'' then confidence
      else if label = ''NEGATIVE'' then minus64 (round64 1.0) confidence
      else round64 0.5)"

definition determineBusinessAction64 :: "real \<Rightarrow> string \<Rightarrow> action" where
  "determineBusinessAction64 confidence label =
     (if normalizedScore64 confidence label \<le> round64 0.4 then offerCoupon
      else if normalizedScore64 confidence label < round64 0.7 then requestFeedback
      else askReferral)"

section \<open>Extraction of the classifier output (hw3/app.js)\<close>

text \<open>
  One element of the classifier's output: an object whose \<open>label\<close> and \<open>score\<close>
  properties may be absent (\<open>None\<close>). The argument of \<open>extractSentimentData\<close> is
  the array of arrays built by \<open>analyzeSentiment\<close>; an element that is falsy or not an
  object is \<open>None\<close>.
\<close>

record classifierItem =
  item_label :: "string option"
  item_score :: "real option"

text \<open>The object \<open>{ sentiment, label, score, rawLabel }\<close> that is returned.\<close>

record sentimentData =
  res_sentiment :: string
  res_label :: string
  res_score :: real
  res_rawLabel :: string

text \<open>
  \<open>String.prototype.toUpperCase\<close> is a built-in of the language: it is the first
  argument, \<open>toUpperCase\<close>, of the function.
\<close>

definition extractSentimentData ::
  "(string \<Rightarrow> string) \<Rightarrow> classifierItem option list list \<Rightarrow> sentimentData" where
  "extractSentimentData toUpperCase result =
     (let fallback = \<lparr> res_sentiment = ''neutral'', res_label = ''NEUTRAL'',
                       res_score = 0.5, res_rawLabel = ''NEUTRAL'' \<rparr>
      in case result of
           [] \<Rightarrow> fallback
         | first # _ \<Rightarrow>
            (case first of
               [] \<Rightarrow> fallback
             | None # _ \<Rightarrow> fallback
             | Some sentimentData # _ \<Rightarrow>
                (let rawLabel = (case item_label sentimentData of
                                   None \<Rightarrow> ''NEUTRAL''
                                 | Some l \<Rightarrow> if l = [] then ''NEUTRAL'' else l);
                     label = toUpperCase rawLabel;
                     score = (case item_score sentimentData of
                                None \<Rightarrow> 0.5
                              | Some s \<Rightarrow> if s = 0 then 0.5 else s);
                     sentiment =
                       (if label = ''POSITIVE'' \<and> score > 0.5 then ''positive''
                        else if label = ''NEGATIVE'' \<and> score > 0.5 then ''negative''
                        else ''neutral'')
                 in \<lparr> res_sentiment = sentiment, res_label = label,
                      res_score = score, res_rawLabel = rawLabel \<rparr>)))"

text \<open>
  The two arguments that \<open>analyzeRandomReview\<close> passes to
  \<open>determineBusinessAction\<close>: the \<open>score\<close> and the \<open>rawLabel\<close> of the extracted
  data.
\<close>

definition decisionArguments ::
  "(string \<Rightarrow> string) \<Rightarrow> classifierItem option list list \<Rightarrow> real \<times> string" where
  "decisionArguments toUpperCase result =
     (res_score (extractSentimentData toUpperCase result),
      res_rawLabel (extractSentimentData toUpperCase result))"

section \<open>Host environment\<close>

text \<open>
  An error object with its \<open>name\<close> and \<open>message\<close>; \<open>errorToString\<close> is
  \<open>String(err)\<close>, that is \<open>Error.prototype.toString\<close>.
\<close>

datatype jserror = JsError (err_name: string) (err_message: string)

definition errorToString :: "jserror \<Rightarrow> string" where
  "errorToString e =
     (if err_name e = [] then err_message e
      else if err_message e = [] then err_name e
      else err_name e @ '': '' @ err_message e)"

text \<open>
  The response of \<open>fetch\<close>: its status and the outcome of \<open>await res.text()\<close>
  (the field \<open>text_body\<close>, a rejection being \<open>Inl\<close>). \<open>res.ok\<close> is true for
  the statuses 200 to 299.
\<close>

record response =
  status :: nat
  text_body :: "jserror + string"

definition ok :: "response \<Rightarrow> bool" where
  "ok res = (200 \<le> status res \<and> status res \<le> 299)"

type_synonym form = "(string \<times> string) list"

text \<open>
  What the functions read from the browser: the clock, the user agent, the fresh
  identifier that \<open>getUserId\<close> draws, the rendering of a number as a string
  (\<open>String(n)\<close>, also used by \<open>JSON.stringify\<close>), \<open>n.toFixed(1)\<close>, and the
  network: \<open>fetch\<close> maps the URL and the form to a rejection (\<open>Inl\<close>) or a response.
\<close>

record env =
  dateNow :: nat
  toISOString :: string
  userAgent :: string
  randomUid :: string
  numberToString :: "real \<Rightarrow> string"
  toFixed1 :: "real \<Rightarrow> string"
  fetch :: "string \<Rightarrow> form \<Rightarrow> jserror + response"

text \<open>
  What a run writes: the two console channels, and the error element of the page, which
  is the only one of the three that the user sees (\<open>showError\<close>).
\<close>

datatype event =
    ConsoleLog string
  | ConsoleError string jserror
  | ShowError string

type_synonym localStorage = "string \<rightharpoonup> string"

definition LS_KEY_UID :: string where
  "LS_KEY_UID = ''sa_uid''"

definition getUserId :: "env \<Rightarrow> localStorage \<Rightarrow> string \<times> localStorage" where
  "getUserId e ls =
     (case ls LS_KEY_UID of
        Some uid \<Rightarrow> if uid \<noteq> [] then (uid, ls)
                   else (randomUid e, ls(LS_KEY_UID \<mapsto> randomUid e))
      | None \<Rightarrow> (randomUid e, ls(LS_KEY_UID \<mapsto> randomUid e)))"

definition showError :: "string \<Rightarrow> event list" where
  "showError message = [ShowError message]"

subsection \<open>A call of determineBusinessAction\<close>

text \<open>
  A call of the function in the terms of the environment: the storage after the call,
  what the call writes, and its completion (\<open>Inl\<close> a thrown error, \<open>Inr\<close> the returned
  value). The body has no statement that reads the environment or the storage, writes
  to the console or to the page, or throws.
\<close>

record actionCall =
  call_storage :: localStorage
  call_events :: "event list"
  call_returned :: "jserror + action"

definition determineBusinessAction_call ::
  "env \<Rightarrow> localStorage \<Rightarrow> real \<Rightarrow> string \<Rightarrow> actionCall" where
  "determineBusinessAction_call e ls confidence label =
     \<lparr> call_storage = ls, call_events = [],
       call_returned = Inr (determineBusinessAction64 confidence label) \<rparr>"

section \<open>JSON.stringify on an object of strings and numbers\<close>

text \<open>
  An object literal is the list of its properties in insertion order. Strings are quoted
  as \<open>JSON.stringify\<close> does: the quote, the backslash and the control characters are
  escaped.
\<close>

datatype jsvalue = JNum real | JStr string

type_synonym jsobject = "(string \<times> jsvalue) list"

definition hexDigit :: "nat \<Rightarrow> char" where
  "hexDigit n = ''0123456789abcdef'' ! n"

definition quoteChar :: "char \<Rightarrow> string" where
  "quoteChar c =
     (if c = CHR 0x22 then [CHR 0x5C, CHR 0x22]
      else if c = CHR 0x5C then [CHR 0x5C, CHR 0x5C]
      else if c = CHR 0x08 then [CHR 0x5C, CHR ''b'']
      else if c = CHR 0x0C then [CHR 0x5C, CHR ''f'']
      else if c = CHR 0x0A then [CHR 0x5C, CHR ''n'']
      else if c = CHR 0x0D then [CHR 0x5C, CHR ''r'']
      else if c = CHR 0x09 then [CHR 0x5C, CHR ''t'']
      else if of_char c < (32::nat)
        then [CHR 0x5C, CHR ''u'', CHR ''0'', CHR ''0'',
              hexDigit (of_char c div 16), hexDigit (of_char c mod 16)]
      else [c])"

definition quoteJSONString :: "string \<Rightarrow> string" where
  "quoteJSONString s = CHR 0x22 # concat (map quoteChar s) @ [CHR 0x22]"

fun stringifyValue :: "(real \<Rightarrow> string) \<Rightarrow> jsvalue \<Rightarrow> string" where
  "stringifyValue num (JNum r) = num r"
| "stringifyValue num (JStr s) = quoteJSONString s"

definition stringifyProperty :: "(real \<Rightarrow> string) \<Rightarrow> string \<times> jsvalue \<Rightarrow> string" where
  "stringifyProperty num p = quoteJSONString (fst p) @ '':'' @ stringifyValue num (snd p)"

fun joinComma :: "string list \<Rightarrow> string" where
  "joinComma [] = []"
| "joinComma [x] = x"
| "joinComma (x # y # ys) = x @ '','' @ joinComma (y # ys)"

definition JSON_stringify :: "(real \<Rightarrow> string) \<Rightarrow> jsobject \<Rightarrow> string" where
  "JSON_stringify num obj = ''{'' @ joinComma (map (stringifyProperty num) obj) @ ''}''"

section \<open>Telemetry: sendLogSimple and logAnalysis\<close>

text \<open>
  The payload object; a property that is absent is \<open>None\<close>, and \<open>orEmpty v\<close> is
  \<open>String(v || "")\<close>.
\<close>

record payload =
  payload_ts :: "nat option"
  payload_review :: "string option"
  payload_sentiment :: "string option"
  payload_action_taken :: "string option"
  payload_meta :: "jsobject option"

record outcome =
  success :: bool
  error :: "string option"

record sendRun =
  request :: form
  events :: "event list"
  returned :: "jserror + outcome"

definition GAS_WEB_APP_URL :: string where
  "GAS_WEB_APP_URL = ''https://script.google.com/macros/s/AKfycbxe8UyJXOFRTSadcCOvOVjaFMpLKnb9wHLc9QqapiR08clgfWui14EixT_sRthslZxT/exec''"

definition orEmpty :: "string option \<Rightarrow> string" where
  "orEmpty v = (case v of None \<Rightarrow> [] | Some s \<Rightarrow> s)"

text \<open>
  The body of the \<open>try\<close> block: \<open>Inl\<close> is the error thrown inside it (by
  \<open>await fetch\<close>, by \<open>await res.text()\<close> or by the \<open>throw\<close>), \<open>Inr\<close> its
  normal completion.
\<close>

definition tryBlock :: "env \<Rightarrow> string \<Rightarrow> form \<Rightarrow> jserror + (event list \<times> outcome)" where
  "tryBlock e url form =
     (case fetch e url form of
        Inl err \<Rightarrow> Inl err
      | Inr res \<Rightarrow>
          if \<not> ok res then
            (case text_body res of
               Inl err \<Rightarrow> Inl err
             | Inr t \<Rightarrow> Inl (JsError ''Error''
                  (''HTTP '' @ numberToString e (real (status res)) @ '': '' @ t)))
          else Inr ([ConsoleLog ''Logged to Google Sheets successfully''],
                    \<lparr> success = True, error = None \<rparr>))"

text \<open>The \<open>catch\<close> clause, and the run of the whole function.\<close>

definition catchBlock :: "form \<Rightarrow> jserror + (event list \<times> outcome) \<Rightarrow> sendRun" where
  "catchBlock form r =
     (case r of
        Inr (evs, out) \<Rightarrow> \<lparr> request = form, events = evs, returned = Inr out \<rparr>
      | Inl err \<Rightarrow>
          \<lparr> request = form,
            events = [ConsoleError ''Google Sheets logging failed:'' err],
            returned = Inr \<lparr> success = False, error = Some (errorToString err) \<rparr> \<rparr>)"

text \<open>
  \<open>sendLogSimple\<close> of hw3/app.js: the form has the field \<open>action_taken\<close>. The
  strings here are lists of 8-bit characters, on which the conversion that
  \<open>form.set\<close> applies to its value changes nothing; the review field of a review
  with any UTF-16 code units is modelled in the section on the review field below.
\<close>

definition sendLogSimple :: "env \<Rightarrow> payload \<Rightarrow> sendRun" where
  "sendLogSimple e payload =
     (let form =
        [(''ts'', numberToString e (real
            (case payload_ts payload of
               None \<Rightarrow> dateNow e
             | Some t \<Rightarrow> if t = 0 then dateNow e else t))),
         (''review'', take 5000 (orEmpty (payload_review payload))),
         (''sentiment'', orEmpty (payload_sentiment payload)),
         (''action_taken'', orEmpty (payload_action_taken payload)),
         (''meta'', JSON_stringify (numberToString e)
            (case payload_meta payload of None \<Rightarrow> [] | Some m \<Rightarrow> m))]
      in catchBlock form (tryBlock e GAS_WEB_APP_URL form))"

text \<open>\<open>sendLogSimple\<close> of the earlier variant (part_000): no field \<open>action_taken\<close>.\<close>

definition GAS_WEB_APP_URL_part000 :: string where
  "GAS_WEB_APP_URL_part000 = ''https://script.google.com/macros/s/AKfycbyMxWeRoRh2f1w153NAQKyzeK0uv8wd37nhjJFFYRLLmcqGtzzlTv7A-hAUJIiOpZIs/exec''"

definition sendLogSimple_part000 :: "env \<Rightarrow> payload \<Rightarrow> sendRun" where
  "sendLogSimple_part000 e payload =
     (let form =
        [(''ts'', numberToString e (real
            (case payload_ts payload of
               None \<Rightarrow> dateNow e
             | Some t \<Rightarrow> if t = 0 then dateNow e else t))),
         (''review'', take 5000 (orEmpty (payload_review payload))),
         (''sentiment'', orEmpty (payload_sentiment payload)),
         (''meta'', JSON_stringify (numberToString e)
            (case payload_meta payload of None \<Rightarrow> [] | Some m \<Rightarrow> m))]
      in catchBlock form (tryBlock e GAS_WEB_APP_URL_part000 form))"

text \<open>
  \<open>logAnalysis\<close> of hw3/app.js. The run gives the local storage after
  \<open>getUserId\<close>, the form that was sent, and what was written; the last \<open>case\<close> is
  the \<open>.catch\<close> handler on the promise of \<open>sendLogSimple\<close>.
\<close>

record logRun =
  storage :: localStorage
  sent :: form
  logged :: "event list"

definition logAnalysis ::
  "env \<Rightarrow> localStorage \<Rightarrow> string \<Rightarrow> string \<Rightarrow> string \<Rightarrow> real \<Rightarrow> action \<Rightarrow> logRun" where
  "logAnalysis e ls review sentiment label score action =
     (let (userId, ls') = getUserId e ls;
          meta =
            [(''user_id'', JStr userId),
             (''model'', JStr ''Xenova/distilbert-base-uncased-finetuned-sst-2-english''),
             (''sentiment_bucket'', JStr sentiment),
             (''label'', JStr label),
             (''confidence'', JNum score),
             (''user_agent'', JStr (userAgent e)),
             (''timestamp_iso'', JStr (toISOString e)),
             (''review_length'', JNum (real (length review))),
             (''business_decision'', JStr (actionCode action))];
          payload =
            \<lparr> payload_ts = Some (dateNow e),
              payload_review = Some (take 5000 review),
              payload_sentiment =
                Some (label @ '' ('' @ toFixed1 e (score * 100) @ ''% confidence)''),
              payload_action_taken = Some (actionCode action),
              payload_meta = Some meta \<rparr>;
          run = sendLogSimple e payload
      in \<lparr> storage = ls', sent = request run,
           logged = events run @
             (case returned run of
                Inl err \<Rightarrow> [ConsoleError ''Background logging error:'' err]
              | Inr _ \<Rightarrow> []) \<rparr>)"

section \<open>The review field over UTF-16 code units\<close>

text \<open>
  A review may hold any UTF-16 code unit, which \<open>string\<close> cannot express. Here a string
  is a list of 16-bit code units. \<open>URLSearchParams.set\<close> takes its value as a
  \<open>USVString\<close>: every surrogate that is not part of a pair is replaced by U+FFFD.
  \<open>wellFormedUTF16\<close> says that a string has no such surrogate.
\<close>

type_synonym codeunit = "16 word"

definition isHighSurrogate :: "codeunit \<Rightarrow> bool" where
  "isHighSurrogate u = (0xD800 \<le> u \<and> u \<le> 0xDBFF)"

definition isLowSurrogate :: "codeunit \<Rightarrow> bool" where
  "isLowSurrogate u = (0xDC00 \<le> u \<and> u \<le> 0xDFFF)"

fun toUSVString :: "codeunit list \<Rightarrow> codeunit list" where
  "toUSVString [] = []"
| "toUSVString [u] = (if isHighSurrogate u \<or> isLowSurrogate u then [0xFFFD] else [u])"
| "toUSVString (u # v # rest) =
     (if isHighSurrogate u then
        (if isLowSurrogate v then u # v # toUSVString rest
         else 0xFFFD # toUSVString (v # rest))
      else if isLowSurrogate u then 0xFFFD # toUSVString (v # rest)
      else u # toUSVString (v # rest))"

fun wellFormedUTF16 :: "codeunit list \<Rightarrow> bool" where
  "wellFormedUTF16 [] = True"
| "wellFormedUTF16 [u] = (\<not> isHighSurrogate u \<and> \<not> isLowSurrogate u)"
| "wellFormedUTF16 (u # v # rest) =
     (if isHighSurrogate u then isLowSurrogate v \<and> wellFormedUTF16 rest
      else \<not> isLowSurrogate u \<and> wellFormedUTF16 (v # rest))"

text \<open>
  The review on its way into the form: \<open>review.substring(0, 5000)\<close> in
  \<open>logAnalysis\<close>, then \<open>form.set("review", String(payload.review || "").substring(0, 5000))\<close>
  in \<open>sendLogSimple\<close> (both variants), and the two together. \<open>codeunits\<close> reads a
  \<open>string\<close> of the model above as code units.
\<close>

definition logAnalysis_review :: "codeunit list \<Rightarrow> codeunit list" where
  "logAnalysis_review review = take 5000 review"

definition sendLogSimple_review :: "codeunit list option \<Rightarrow> codeunit list" where
  "sendLogSimple_review payload_review16 =
     toUSVString (take 5000 (case payload_review16 of None \<Rightarrow> [] | Some r \<Rightarrow> r))"

definition reviewField :: "codeunit list \<Rightarrow> codeunit list" where
  "reviewField review = sendLogSimple_review (Some (logAnalysis_review review))"

definition codeunits :: "string \<Rightarrow> codeunit list" where
  "codeunits s = map (\<lambda>c. of_nat (of_char c)) s"

section \<open>Reading a serialized object back\<close>

text \<open>
  \<open>JSON.parse\<close> on the texts that \<open>JSON.stringify\<close> writes for an object of strings
  and numbers: no white space, string members unescaped, a number member kept as its
  token. Any other text is rejected (\<open>None\<close>).
\<close>

datatype parsed = PNum string | PStr string

definition hexVal :: "char \<Rightarrow> nat option" where
  "hexVal c =
     (let n = of_char c :: nat in
      if 48 \<le> n \<and> n \<le> 57 then Some (n - 48)
      else if 97 \<le> n \<and> n \<le> 102 then Some (n - 87)
      else if 65 \<le> n \<and> n \<le> 70 then Some (n - 55)
      else None)"

definition unescape :: "char \<Rightarrow> char option" where
  "unescape c =
     (if c = CHR 0x22 then Some (CHR 0x22)
      else if c = CHR 0x5C then Some (CHR 0x5C)
      else if c = CHR ''/'' then Some (CHR ''/'')
      else if c = CHR ''b'' then Some (CHR 0x08)
      else if c = CHR ''f'' then Some (CHR 0x0C)
      else if c = CHR ''n'' then Some (CHR 0x0A)
      else if c = CHR ''r'' then Some (CHR 0x0D)
      else if c = CHR ''t'' then Some (CHR 0x09)
      else None)"

definition hex4 :: "char \<Rightarrow> char \<Rightarrow> char \<Rightarrow> char \<Rightarrow> char option" where
  "hex4 a b c d =
     (case (hexVal a, hexVal b, hexVal c, hexVal d) of
        (Some h1, Some h2, Some h3, Some h4) \<Rightarrow>
          (let n = ((h1 * 16 + h2) * 16 + h3) * 16 + h4
           in if n < 256 then Some (char_of n) else None)
      | _ \<Rightarrow> None)"

definition consFst :: "char \<Rightarrow> (string \<times> string) option \<Rightarrow> (string \<times> string) option" where
  "consFst c r = (case r of None \<Rightarrow> None | Some (s, rest) \<Rightarrow> Some (c # s, rest))"

fun parseChars :: "string \<Rightarrow> (string \<times> string) option" where
  "parseChars [] = None"
| "parseChars (c # cs) =
     (if c = CHR 0x22 then Some ([], cs)
      else if c = CHR 0x5C then
        (case cs of
           [] \<Rightarrow> None
         | e # cs1 \<Rightarrow>
             if e = CHR ''u'' then
               (case cs1 of
                  a # b # c' # d # cs2 \<Rightarrow>
                    (case hex4 a b c' d of
                       None \<Rightarrow> None
                     | Some ch \<Rightarrow> consFst ch (parseChars cs2))
                | _ \<Rightarrow> None)
             else
               (case unescape e of
                  None \<Rightarrow> None
                | Some ch \<Rightarrow> consFst ch (parseChars cs1)))
      else if of_char c < (32::nat) then None
      else consFst c (parseChars cs))"

definition isNumChar :: "char \<Rightarrow> bool" where
  "isNumChar c = (c \<in> set ''0123456789+-.eE'')"

definition parseValue :: "string \<Rightarrow> (parsed \<times> string) option" where
  "parseValue s =
     (case s of
        [] \<Rightarrow> None
      | c # cs \<Rightarrow>
          if c = CHR 0x22 then
            (case parseChars cs of None \<Rightarrow> None | Some (v, rest) \<Rightarrow> Some (PStr v, rest))
          else if takeWhile isNumChar s = [] then None
          else Some (PNum (takeWhile isNumChar s), dropWhile isNumChar s))"

fun parseMembers :: "nat \<Rightarrow> string \<Rightarrow> (string \<times> parsed) list option" where
  "parseMembers 0 s = None"
| "parseMembers (Suc n) s =
     (case s of
        [] \<Rightarrow> None
      | q # s1 \<Rightarrow>
          if q \<noteq> CHR 0x22 then None
          else
            (case parseChars s1 of
               None \<Rightarrow> None
             | Some (k, s2) \<Rightarrow>
                 (case s2 of
                    [] \<Rightarrow> None
                  | colon # s3 \<Rightarrow>
                      if colon \<noteq> CHR '':'' then None
                      else
                        (case parseValue s3 of
                           None \<Rightarrow> None
                         | Some (v, s4) \<Rightarrow>
                             if s4 = ''}'' then Some [(k, v)]
                             else
                               (case s4 of
                                  [] \<Rightarrow> None
                                | d # s5 \<Rightarrow>
                                    if d \<noteq> CHR '','' then None
                                    else
                                      (case parseMembers n s5 of
                                         None \<Rightarrow> None
                                       | Some kvs \<Rightarrow> Some ((k, v) # kvs)))))))"

definition JSON_parse :: "string \<Rightarrow> (string \<times> parsed) list option" where
  "JSON_parse s =
     (case s of
        [] \<Rightarrow> None
      | c # cs \<Rightarrow>
          if c \<noteq> CHR ''{'' then None
          else if cs = ''}'' then Some []
          else parseMembers (length cs) cs)"

definition isNumberToken :: "string \<Rightarrow> bool" where
  "isNumberToken t = (t \<noteq> [] \<and> list_all isNumChar t)"

fun parsedOf :: "(real \<Rightarrow> string) \<Rightarrow> jsvalue \<Rightarrow> parsed" where
  "parsedOf num (JNum r) = PNum (num r)"
| "parsedOf num (JStr s) = PStr s"

fun validValue :: "(real \<Rightarrow> string) \<Rightarrow> jsvalue \<Rightarrow> bool" where
  "validValue num (JNum r) = isNumberToken (num r)"
| "validValue num (JStr s) = True"

section \<open>The contract of the emitter\<close>

text \<open>
  A transport failure is a network error or a status outside 200 to 299. The contract:
  the run returns and does not throw; on a transport failure it returns a failure
  outcome with a reason (for a network error, the string of that error); otherwise it
  returns success; and nothing is written to the error element of the page.
\<close>

definition isShowError :: "event \<Rightarrow> bool" where
  "isShowError ev = (case ev of ShowError _ \<Rightarrow> True | _ \<Rightarrow> False)"

definition transportFailure :: "jserror + response \<Rightarrow> bool" where
  "transportFailure net =
     (case net of
        Inl err \<Rightarrow> True
      | Inr res \<Rightarrow> \<not> (200 \<le> status res \<and> status res \<le> 299))"

definition emitterContract :: "(jserror + response) \<Rightarrow> sendRun \<Rightarrow> bool" where
  "emitterContract net run =
     ((\<exists>out. returned run = Inr out)
      \<and> (transportFailure net \<longrightarrow>
           (\<exists>reason. returned run = Inr \<lparr> success = False, error = Some reason \<rparr>))
      \<and> (\<forall>err. net = Inl err \<longrightarrow>
           returned run = Inr \<lparr> success = False, error = Some (errorToString err) \<rparr>)
      \<and> (\<not> transportFailure net \<longrightarrow> returned run = Inr \<lparr> success = True, error = None \<rparr>)
      \<and> list_all (\<lambda>ev. \<not> isShowError ev) (events run))"

section \<open>A concrete environment\<close>

text \<open>
  An environment and a payload on which the definitions are run, and an upper-casing
  function for labels of ASCII letters.
\<close>

definition asciiUpperChar :: "char \<Rightarrow> char" where
  "asciiUpperChar c =
     (if (97::nat) \<le> of_char c \<and> of_char c \<le> (122::nat)
      then char_of (of_char c - (32::nat)) else c)"

definition asciiUpperCase :: "string \<Rightarrow> string" where
  "asciiUpperCase s = map asciiUpperChar s"

definition demoEnv :: "(jserror + response) \<Rightarrow> env" where
  "demoEnv net =
     \<lparr> dateNow = 1700000000000,
       toISOString = ''2023-11-14T22:13:20.000Z'',
       userAgent = ''Mozilla/5.0'',
       randomUid = ''3f2a9c1e-0000-4000-8000-000000000000'',
       numberToString = (\<lambda>r. if r = 5 then ''5'' else if r = 500 then ''500''
                              else if r = 0.99 then ''0.99'' else ''1700000000000''),
       toFixed1 = (\<lambda>r. ''99.0''),
       fetch = (\<lambda>url form. net) \<rparr>"

definition demoPayload :: payload where
  "demoPayload =
     \<lparr> payload_ts = Some 1700000000000,
       payload_review = Some ''great'',
       payload_sentiment = Some ''POSITIVE (99.0% confidence)'',
       payload_action_taken = Some ''ASK_REFERRAL'',
       payload_meta = Some [(''business_decision'', JStr ''ASK_REFERRAL'')] \<rparr>"

section \<open>Properties of the decision engine\<close>

lemma actions_distinct:
  "offerCoupon \<noteq> requestFeedback" "offerCoupon \<noteq> askReferral"
  "requestFeedback \<noteq> askReferral" "requestFeedback \<noteq> offerCoupon"
  "askReferral \<noteq> offerCoupon" "askReferral \<noteq> requestFeedback"
  by (simp_all add: offerCoupon_def requestFeedback_def askReferral_def)

lemma actionCode_literals:
  "actionCode offerCoupon = ''OFFER_COUPON''"
  "actionCode requestFeedback = ''REQUEST_FEEDBACK''"
  "actionCode askReferral = ''ASK_REFERRAL''"
  by (simp_all add: offerCoupon_def requestFeedback_def askReferral_def)

lemma positive_action:
  "determineBusinessAction c ''POSITIVE'' =
     (if c \<le> 0.4 then offerCoupon else if c < 0.7 then requestFeedback else askReferral)"
  by (simp add: determineBusinessAction_def normalizedScore_def)

lemma negative_action:
  "determineBusinessAction c ''NEGATIVE'' =
     (if 0.6 \<le> c then offerCoupon else if 0.3 < c then requestFeedback else askReferral)"
proof -
  have a: "(1 - c \<le> 0.4) = (0.6 \<le> c)" by (auto simp: field_simps)
  have b: "(1 - c < 0.7) = (0.3 < c)" by (auto simp: field_simps)
  show ?thesis
    by (simp add: determineBusinessAction_def normalizedScore_def a b)
qed



text \<open>
  The bands of the NEGATIVE branch in exact arithmetic: the bounds 0.60 and 0.30 on the
  confidence are the thresholds 0.4 and 0.7 on \<open>1 - confidence\<close>.
\<close>

lemma negative_bands_exact:
  "normalizedScore c ''NEGATIVE'' = 1 - c
   \<and> ((determineBusinessAction c ''NEGATIVE'' = offerCoupon) = (0.60 \<le> c))
   \<and> ((determineBusinessAction c ''NEGATIVE'' = askReferral) = (c \<le> 0.30))
   \<and> ((determineBusinessAction c ''NEGATIVE'' = requestFeedback) = (0.30 < c \<and> c < 0.60))"
  by (auto simp: negative_action actions_distinct normalizedScore_def)

subsection \<open>Rounding to binary64\<close>

lemma exponent64_eq:
  assumes "2 powi e \<le> \<bar>x\<bar>" and "\<bar>x\<bar> < 2 powi (e + 1)" and "- 1022 \<le> e"
  shows "exponent64 x = e"
proof -
  have pos: "0 < \<bar>x\<bar>" using assms(1) by (smt (verit) zero_less_power_int)
  have a: "(2::real) powr (of_int e) = 2 powi e"
    by (simp add: powr_real_of_int')
  have b: "(2::real) powr (of_int e + 1) = 2 powi (e + 1)"
    using powr_real_of_int' [of 2 "e + 1"] by simp
  have "\<lfloor>log 2 \<bar>x\<bar>\<rfloor> = e"
    using assms(1,2) pos
    by (simp add: floor_log_eq_powr_iff a b)
  then show ?thesis using assms(3) by (simp add: exponent64_def)
qed

lemma roundToEven_le: "x \<le> of_int n \<Longrightarrow> roundToEven x \<le> n"
proof -
  assume a: "x \<le> of_int n"
  then have f: "\<lfloor>x\<rfloor> \<le> n" by (simp add: floor_le_iff)
  show ?thesis
  proof (cases "\<lfloor>x\<rfloor> = n")
    case True
    then have "x - of_int \<lfloor>x\<rfloor> \<le> 0" using a by simp
    then show ?thesis using True by (simp add: roundToEven_def)
  next
    case False
    with f have "\<lfloor>x\<rfloor> + 1 \<le> n" by simp
    then show ?thesis using f by (simp add: roundToEven_def)
  qed
qed

lemma roundToEven_ge: "of_int n \<le> x \<Longrightarrow> n \<le> roundToEven x"
proof -
  assume "of_int n \<le> x"
  then have "n \<le> \<lfloor>x\<rfloor>" by (simp add: le_floor_iff)
  then show ?thesis by (simp add: roundToEven_def)
qed

lemma roundToEven_ge_tie:
  assumes "of_int n - 1 / 2 \<le> x" and "even n"
  shows "n \<le> roundToEven x"
proof (cases "of_int n \<le> x")
  case True
  then show ?thesis by (rule roundToEven_ge)
next
  case False
  have "of_int (n - 1) \<le> x" using assms(1) by simp
  then have lo: "n - 1 \<le> \<lfloor>x\<rfloor>" by (simp only: le_floor_iff)
  from False have "\<lfloor>x\<rfloor> < n" by (simp add: floor_less_iff)
  with lo have fl: "\<lfloor>x\<rfloor> = n - 1" by simp
  then have odd: "\<not> even \<lfloor>x\<rfloor>" using assms(2) by simp
  have "1 / 2 \<le> x - of_int \<lfloor>x\<rfloor>" using assms(1) fl by simp
  then show ?thesis using fl odd by (simp add: roundToEven_def)
qed

lemma round64_zero: "round64 0 = 0"
  by (simp add: round64_def)

lemma round64_one: "round64 1 = 1"
proof -
  have e: "exponent64 1 = 0"
    by (rule exponent64_eq) simp_all
  show ?thesis
    by (simp add: round64_def e roundToEven_def power_int_minus)
qed

lemma round64_half:
  assumes "1 / 2 \<le> x" and "x < 1"
  shows "round64 x = of_int (roundToEven (x * 2 ^ 53)) / 2 ^ 53"
proof -
  have e: "exponent64 x = - 1"
    using assms by (intro exponent64_eq) (simp_all add: power_int_minus)
  show ?thesis
    using assms by (simp add: round64_def e power_int_minus field_simps)
qed

lemma round64_quarter:
  assumes "1 / 4 \<le> x" and "x < 1 / 2"
  shows "round64 x = of_int (roundToEven (x * 2 ^ 54)) / 2 ^ 54"
proof -
  have e: "exponent64 x = - 2"
    using assms by (intro exponent64_eq) (simp_all add: power_int_minus)
  show ?thesis
    using assms by (simp add: round64_def e power_int_minus field_simps)
qed

lemma round64_small:
  assumes "0 < x" and "x < 1 / 4"
  shows "round64 x \<le> 1 / 4"
proof -
  let ?L = "\<lfloor>log 2 x\<rfloor>"
  let ?e = "exponent64 x"
  let ?q = "(2::real) powi (?e - 52)"
  have "log 2 x < log 2 (1 / 4)" using assms by (simp del: log_divide)
  also have "log 2 (1 / 4) = - 2"
  proof -
    have "(1 / 4 :: real) = 2 powr (- 2)" by (simp add: powr_minus_divide)
    then show ?thesis by (simp only: log_powr_cancel)
  qed
  finally have "log 2 x < of_int (- 2)" by simp
  then have L: "?L < - 2" by (simp only: floor_less_iff)
  have e: "?e = max ?L (- 1022)" using assms by (simp add: exponent64_def)
  then have e3: "?e \<le> - 3" and Le: "?L \<le> ?e" using L by simp_all
  have "x = 2 powr (log 2 x)" using assms by simp
  also have "\<dots> < 2 powr (of_int (?L + 1))"
    by (intro powr_less_mono) simp_all
  also have "\<dots> \<le> 2 powr (of_int (?e + 1))"
    using Le by (intro powr_mono) simp_all
  also have "\<dots> = 2 powi (?e + 1)"
    using powr_real_of_int' [of 2 "?e + 1"] by simp
  finally have xb: "x < 2 powi (?e + 1)" .
  have q: "0 < ?q" by simp
  have split: "(2::real) powi (?e + 1) = 2 ^ 53 * ?q"
    using power_int_add [of "2::real" "53" "?e - 52"] by (simp add: add.commute)
  have "x / ?q \<le> of_int (2 ^ 53)"
    using xb q split by (simp add: field_simps)
  then have "roundToEven (x / ?q) \<le> 2 ^ 53" by (rule roundToEven_le)
  then have "real_of_int (roundToEven (x / ?q)) \<le> 2 ^ 53"
    by (metis of_int_le_iff of_int_numeral of_int_power)
  then have "round64 x \<le> 2 ^ 53 * ?q"
    using assms q by (simp add: round64_def)
  also have "\<dots> = 2 powi (?e + 1)" by (simp only: split)
  also have "\<dots> \<le> 2 powi (- 2)"
    using e3 by (intro power_int_increasing) simp_all
  finally show ?thesis by (simp add: power_int_minus)
qed

lemma rte_real_le: "x \<le> of_int n \<Longrightarrow> real_of_int (roundToEven x) \<le> of_int n"
  by (simp add: roundToEven_le)

lemma rte_real_ge: "of_int n \<le> x \<Longrightarrow> of_int n \<le> real_of_int (roundToEven x)"
  by (simp add: roundToEven_ge)

lemma rte_real_ge_tie:
  "of_int n - 1 / 2 \<le> x \<Longrightarrow> even n \<Longrightarrow> of_int n \<le> real_of_int (roundToEven x)"
  by (simp add: roundToEven_ge_tie)

text \<open>Rounding does not cross a grid point of the binade [1/2, 1) or [1/4, 1/2).\<close>

lemma round64_le_half_grid:
  assumes "0 \<le> x" and "x \<le> of_int m / 2 ^ 53" and "2 ^ 52 \<le> m" and "m < 2 ^ 53"
  shows "round64 x \<le> of_int m / 2 ^ 53"
proof -
  have d: "1 / 2 \<le> real_of_int m / 2 ^ 53" using assms(3) by simp
  consider "x = 0" | "0 < x" "x < 1 / 4" | "1 / 4 \<le> x" "x < 1 / 2" | "1 / 2 \<le> x"
    using assms(1) by linarith
  then show ?thesis
  proof cases
    case 1
    then show ?thesis using d by (simp add: round64_zero)
  next
    case 2
    then have "round64 x \<le> 1 / 4" by (rule round64_small)
    then show ?thesis using d by linarith
  next
    case 3
    then have "x * 2 ^ 54 \<le> of_int (2 ^ 53)" by simp
    then have "real_of_int (roundToEven (x * 2 ^ 54)) \<le> of_int (2 ^ 53)" by (rule rte_real_le)
    then have "round64 x \<le> 1 / 2" using 3 by (simp add: round64_quarter field_simps)
    then show ?thesis using d by linarith
  next
    case 4
    have x1: "x < 1" using assms(2,4) by (simp add: field_simps)
    have "x * 2 ^ 53 \<le> of_int m" using assms(2) by (simp add: field_simps)
    then have "real_of_int (roundToEven (x * 2 ^ 53)) \<le> of_int m" by (rule rte_real_le)
    then show ?thesis using 4 x1 by (simp add: round64_half field_simps)
  qed
qed

lemma round64_le_quarter_grid:
  assumes "0 \<le> x" and "x \<le> of_int m / 2 ^ 54" and "2 ^ 52 \<le> m" and "m < 2 ^ 53"
  shows "round64 x \<le> of_int m / 2 ^ 54"
proof -
  have d: "1 / 4 \<le> real_of_int m / 2 ^ 54" using assms(3) by simp
  consider "x = 0" | "0 < x" "x < 1 / 4" | "1 / 4 \<le> x"
    using assms(1) by linarith
  then show ?thesis
  proof cases
    case 1
    then show ?thesis using d by (simp add: round64_zero)
  next
    case 2
    then have "round64 x \<le> 1 / 4" by (rule round64_small)
    then show ?thesis using d by linarith
  next
    case 3
    have x1: "x < 1 / 2" using assms(2,4) by (simp add: field_simps)
    have "x * 2 ^ 54 \<le> of_int m" using assms(2) by (simp add: field_simps)
    then have "real_of_int (roundToEven (x * 2 ^ 54)) \<le> of_int m" by (rule rte_real_le)
    then show ?thesis using 3 x1 by (simp add: round64_quarter field_simps)
  qed
qed

lemma round64_ge_half_grid:
  assumes "of_int m / 2 ^ 53 - 1 / 2 ^ 54 \<le> x" and "even m" and "x \<le> 1"
    and "2 ^ 52 < m" and "m < 2 ^ 53"
  shows "of_int m / 2 ^ 53 \<le> round64 x"
proof (cases "x = 1")
  case True
  then show ?thesis using assms(5) by (simp add: round64_one)
next
  case False
  then have x1: "x < 1" using assms(3) by simp
  have "real_of_int (2 ^ 52 + 1) \<le> real_of_int m" using assms(4) by simp
  then have x0: "1 / 2 \<le> x" using assms(1) by (simp add: field_simps)
  have "of_int m - 1 / 2 \<le> x * 2 ^ 53" using assms(1) by (simp add: field_simps)
  then have "of_int m \<le> real_of_int (roundToEven (x * 2 ^ 53))"
    using assms(2) by (rule rte_real_ge_tie)
  then show ?thesis using x0 x1 by (simp add: round64_half field_simps)
qed

lemma round64_ge_quarter_grid:
  assumes "of_int m / 2 ^ 54 \<le> x" and "x \<le> 1" and "2 ^ 52 \<le> m" and "m < 2 ^ 53"
  shows "of_int m / 2 ^ 54 \<le> round64 x"
proof -
  have d: "real_of_int m / 2 ^ 54 < 1 / 2" using assms(4) by simp
  have x0: "1 / 4 \<le> x" using assms(1,3) by (simp add: field_simps)
  consider "x < 1 / 2" | "1 / 2 \<le> x" "x < 1" | "x = 1" using assms(2) by linarith
  then show ?thesis
  proof cases
    case 1
    have "of_int m \<le> x * 2 ^ 54" using assms(1) by (simp add: field_simps)
    then have "of_int m \<le> real_of_int (roundToEven (x * 2 ^ 54))" by (rule rte_real_ge)
    then show ?thesis using x0 1 by (simp add: round64_quarter field_simps)
  next
    case 2
    then have "of_int (2 ^ 52) \<le> x * 2 ^ 53" by simp
    then have "of_int (2 ^ 52) \<le> real_of_int (roundToEven (x * 2 ^ 53))" by (rule rte_real_ge)
    then have "1 / 2 \<le> round64 x" using 2 by (simp add: round64_half field_simps)
    then show ?thesis using d by linarith
  next
    case 3
    then show ?thesis using d by (simp add: round64_one)
  qed
qed

text \<open>A binary64 number of a binade is a multiple of the binade's unit.\<close>

lemma binary64_half_grid:
  assumes "isBinary64 c" and "1 / 2 \<le> c" and "c < 1"
  shows "\<exists>m::int. c = of_int m / 2 ^ 53"
proof -
  have "c = of_int (roundToEven (c * 2 ^ 53)) / 2 ^ 53"
    using assms round64_half [of c] by (simp add: isBinary64_def)
  then show ?thesis ..
qed

lemma binary64_quarter_grid:
  assumes "isBinary64 c" and "1 / 4 \<le> c" and "c < 1 / 2"
  shows "\<exists>m::int. c = of_int m / 2 ^ 54"
proof -
  have "c = of_int (roundToEven (c * 2 ^ 54)) / 2 ^ 54"
    using assms round64_quarter [of c] by (simp add: isBinary64_def)
  then show ?thesis ..
qed

lemma round64_literals:
  "round64 0.4 = 7205759403792794 / 2 ^ 54"
  "round64 0.7 = 6305039478318694 / 2 ^ 53"
  "round64 0.6 = 5404319552844595 / 2 ^ 53"
  "round64 0.3 = 5404319552844595 / 2 ^ 54"
  "round64 0.3000000000000001 = 5404319552844597 / 2 ^ 54"
  "round64 0.30000000000000004 = 5404319552844596 / 2 ^ 54"
  "round64 0.60 = 5404319552844595 / 2 ^ 53"
  "round64 0.30 = 5404319552844595 / 2 ^ 54"
  "round64 0.5 = 0.5"
  "round64 1.0 = 1"
  by (simp_all add: round64_half round64_quarter roundToEven_def round64_one)

lemma coupon_band64:
  assumes "isBinary64 c" and "0 \<le> c" and "c \<le> 1"
  shows "(round64 (1 - c) \<le> round64 0.4) = (round64 0.6 \<le> c)"
proof
  assume "round64 0.6 \<le> c"
  then have "1 - c \<le> real_of_int 7205759403792794 / 2 ^ 54"
    unfolding round64_literals by (simp add: field_simps)
  moreover have "0 \<le> 1 - c" using assms(3) by simp
  ultimately have "round64 (1 - c) \<le> real_of_int 7205759403792794 / 2 ^ 54"
    by (intro round64_le_quarter_grid) simp_all
  then show "round64 (1 - c) \<le> round64 0.4" unfolding round64_literals by simp
next
  assume a: "round64 (1 - c) \<le> round64 0.4"
  show "round64 0.6 \<le> c"
  proof (rule ccontr)
    assume "\<not> round64 0.6 \<le> c"
    then have lt: "c < 5404319552844595 / 2 ^ 53" unfolding round64_literals by simp
    have "c \<le> 5404319552844594 / 2 ^ 53"
    proof (cases "1 / 2 \<le> c")
      case True
      with assms(1) lt obtain m :: int where m: "c = of_int m / 2 ^ 53"
        using binary64_half_grid [of c] by auto
      with lt have "real_of_int m < real_of_int 5404319552844595" by (simp add: field_simps)
      then have "m \<le> 5404319552844594" by (simp only: of_int_less_iff)
      then have "real_of_int m \<le> real_of_int 5404319552844594" by (simp only: of_int_le_iff)
      then show ?thesis by (simp add: m field_simps)
    next
      case False
      then show ?thesis by simp
    qed
    then have "real_of_int 7205759403792796 / 2 ^ 54 \<le> 1 - c" by (simp add: field_simps)
    moreover have "1 - c \<le> 1" using assms(2) by simp
    ultimately have "real_of_int 7205759403792796 / 2 ^ 54 \<le> round64 (1 - c)"
      by (intro round64_ge_quarter_grid) simp_all
    with a show False unfolding round64_literals by simp
  qed
qed

lemma referral_band64:
  assumes "isBinary64 c" and "0 \<le> c" and "c \<le> 1"
  shows "(round64 (1 - c) < round64 0.7) = (round64 0.3000000000000001 < c)"
proof
  assume "round64 0.3000000000000001 < c"
  then have gt: "5404319552844597 / 2 ^ 54 < c" unfolding round64_literals by simp
  have "5404319552844598 / 2 ^ 54 \<le> c"
  proof (cases "c < 1 / 2")
    case True
    with assms(1) gt obtain m :: int where m: "c = of_int m / 2 ^ 54"
      using binary64_quarter_grid [of c] by auto
    with gt have "real_of_int 5404319552844597 < real_of_int m" by (simp add: field_simps)
    then have "5404319552844598 \<le> m" by (simp only: of_int_less_iff)
    then have "real_of_int 5404319552844598 \<le> real_of_int m" by (simp only: of_int_le_iff)
    then show ?thesis by (simp add: m field_simps)
  next
    case False
    then show ?thesis by simp
  qed
  then have "1 - c \<le> real_of_int 6305039478318693 / 2 ^ 53" by (simp add: field_simps)
  moreover have "0 \<le> 1 - c" using assms(3) by simp
  ultimately have "round64 (1 - c) \<le> real_of_int 6305039478318693 / 2 ^ 53"
    by (intro round64_le_half_grid) simp_all
  then show "round64 (1 - c) < round64 0.7" unfolding round64_literals by simp
next
  assume a: "round64 (1 - c) < round64 0.7"
  show "round64 0.3000000000000001 < c"
  proof (rule ccontr)
    assume "\<not> round64 0.3000000000000001 < c"
    then have "c \<le> 5404319552844597 / 2 ^ 54" unfolding round64_literals by simp
    then have "real_of_int 6305039478318694 / 2 ^ 53 - 1 / 2 ^ 54 \<le> 1 - c"
      by (simp add: field_simps)
    moreover have "1 - c \<le> 1" using assms(2) by simp
    ultimately have "real_of_int 6305039478318694 / 2 ^ 53 \<le> round64 (1 - c)"
      by (intro round64_ge_half_grid) simp_all
    with a show False unfolding round64_literals by simp
  qed
qed

lemma isBinary64_examples:
  "isBinary64 (5404319552844596 / 2 ^ 54)"
  "isBinary64 (5404319552844595 / 2 ^ 53)"
  "isBinary64 (5404319552844595 / 2 ^ 54)"
  by (simp_all add: isBinary64_def round64_half round64_quarter roundToEven_def)

text \<open>
  C2, as amended. For every binary64 confidence in [0,1],
  \<open>determineBusinessAction(confidence, "NEGATIVE")\<close>, which computes
  \<open>normalizedScore = 1 - confidence\<close> rounded to binary64, returns the OFFER_COUPON
  action if and only if confidence \<open>\<ge>\<close> 0.60, the ASK_REFERRAL action if and only if
  confidence \<open>\<le>\<close> 0.3000000000000001 (that is 0.30 and the two binary64 numbers next
  above it, whose difference from 1 rounds to 0.7), and the REQUEST_FEEDBACK action
  otherwise; each decimal stands for the nearest binary64 number.
\<close>

theorem negative_bands64:
  assumes "isBinary64 c" and "0 \<le> c" and "c \<le> 1"
  shows "normalizedScore64 c ''NEGATIVE'' = round64 (1 - c)
       \<and> ((determineBusinessAction64 c ''NEGATIVE'' = offerCoupon) = (round64 0.60 \<le> c))
       \<and> ((determineBusinessAction64 c ''NEGATIVE'' = askReferral)
            = (c \<le> round64 0.3000000000000001))
       \<and> ((determineBusinessAction64 c ''NEGATIVE'' = requestFeedback)
            = (round64 0.3000000000000001 < c \<and> c < round64 0.60))"
proof -
  have n: "normalizedScore64 c ''NEGATIVE'' = round64 (1 - c)"
    by (simp add: normalizedScore64_def minus64_def round64_one)
  have order: "round64 0.3000000000000001 < round64 0.6"
    unfolding round64_literals by simp
  have d: "determineBusinessAction64 c ''NEGATIVE'' =
      (if round64 0.6 \<le> c then offerCoupon
       else if round64 0.3000000000000001 < c then requestFeedback else askReferral)"
    using coupon_band64 [OF assms] referral_band64 [OF assms]
    unfolding determineBusinessAction64_def n by simp
  show ?thesis
    unfolding d using n order by (auto simp: actions_distinct)
qed

theorem negative_bands64_witness:
  "isBinary64 (round64 0.60) \<and> 0 \<le> round64 0.60 \<and> round64 0.60 \<le> 1
   \<and> determineBusinessAction64 (round64 0.60) ''NEGATIVE'' = offerCoupon
   \<and> isBinary64 (round64 0.30) \<and> 0 \<le> round64 0.30 \<and> round64 0.30 \<le> 1
   \<and> determineBusinessAction64 (round64 0.30) ''NEGATIVE'' = askReferral"
proof -
  have a: "isBinary64 (round64 0.60)" "0 \<le> round64 0.60" "round64 0.60 \<le> 1"
    unfolding round64_literals using isBinary64_examples by simp_all
  have b: "isBinary64 (round64 0.30)" "0 \<le> round64 0.30" "round64 0.30 \<le> 1"
    "round64 0.30 \<le> round64 0.3000000000000001"
    unfolding round64_literals using isBinary64_examples by simp_all
  from negative_bands64 [OF a] negative_bands64 [OF b(1-3)] a b show ?thesis
    by simp
qed

text \<open>
  The claim C2 as it was stated fails: the binary64 number 0.30000000000000004 lies in
  [0,1] and above 0.30, its difference from 1 is the binary64 number 0.7, and the action
  is ASK_REFERRAL.
\<close>

theorem negative_bands_counterexample:
  "isBinary64 (round64 0.30000000000000004)
   \<and> 0 \<le> round64 0.30000000000000004
   \<and> round64 0.30000000000000004 \<le> 1
   \<and> \<not> round64 0.30000000000000004 \<le> 0.30
   \<and> \<not> round64 0.30000000000000004 \<le> round64 0.30
   \<and> normalizedScore64 (round64 0.30000000000000004) ''NEGATIVE'' = round64 0.7
   \<and> determineBusinessAction64 (round64 0.30000000000000004) ''NEGATIVE'' = askReferral"
proof -
  have n: "normalizedScore64 (5404319552844596 / 2 ^ 54) ''NEGATIVE'' = 6305039478318694 / 2 ^ 53"
    by (simp add: normalizedScore64_def minus64_def round64_one round64_half roundToEven_def)
  have a: "determineBusinessAction64 (5404319552844596 / 2 ^ 54) ''NEGATIVE'' = askReferral"
    unfolding determineBusinessAction64_def n round64_literals by simp
  show ?thesis
    unfolding round64_literals using n a isBinary64_examples(1) by simp
qed

text \<open>
  C3. For every confidence and every label other than exactly "POSITIVE" and exactly
  "NEGATIVE" (the comparison is case-sensitive: "positive" and "UNKNOWN_LABEL" fall
  here), \<open>determineBusinessAction\<close> returns the REQUEST_FEEDBACK action; the confidence
  is ignored and the normalized score is 0.5.
\<close>

theorem unknown_label_feedback:
  assumes "label \<noteq> ''POSITIVE''" and "label \<noteq> ''NEGATIVE''"
  shows "normalizedScore c label = 0.5
       \<and> determineBusinessAction c label = requestFeedback"
  using assms by (simp add: determineBusinessAction_def normalizedScore_def)

theorem unknown_label_feedback_witness:
  "''positive'' \<noteq> ''POSITIVE'' \<and> ''positive'' \<noteq> ''NEGATIVE''
   \<and> ''UNKNOWN_LABEL'' \<noteq> ''POSITIVE'' \<and> ''UNKNOWN_LABEL'' \<noteq> ''NEGATIVE''
   \<and> determineBusinessAction 0.99 ''positive'' = requestFeedback
   \<and> determineBusinessAction 0.01 ''UNKNOWN_LABEL'' = requestFeedback
   \<and> normalizedScore 0.99 ''positive'' = 0.5"
  using unknown_label_feedback [of "''positive''" "0.99"]
    unknown_label_feedback [of "''UNKNOWN_LABEL''" "0.01"]
  by simp

text \<open>
  C4. \<open>determineBusinessAction\<close> is total and free of side effects: for every real
  confidence (also outside [0,1]) and every label, in every environment and with every
  content of the storage, a call writes nothing, leaves the storage as it was, does not
  throw, returns the same value whatever the environment and the storage are, and that
  value is exactly one of the three fixed action records, which are keyed by the action
  codes OFFER_COUPON, REQUEST_FEEDBACK and ASK_REFERRAL. The same three records are the
  only values in exact arithmetic.
\<close>

theorem action_call_pure:
  "call_events (determineBusinessAction_call e ls c label) = []
   \<and> call_storage (determineBusinessAction_call e ls c label) = ls
   \<and> call_returned (determineBusinessAction_call e ls c label)
       = call_returned (determineBusinessAction_call e' ls' c label)
   \<and> (\<exists>a. call_returned (determineBusinessAction_call e ls c label) = Inr a
        \<and> (a = offerCoupon \<and> actionCode a = ''OFFER_COUPON''
           \<or> a = requestFeedback \<and> actionCode a = ''REQUEST_FEEDBACK''
           \<or> a = askReferral \<and> actionCode a = ''ASK_REFERRAL''))
   \<and> (determineBusinessAction c label = offerCoupon
        \<or> determineBusinessAction c label = requestFeedback
        \<or> determineBusinessAction c label = askReferral)
   \<and> offerCoupon \<noteq> requestFeedback \<and> offerCoupon \<noteq> askReferral
   \<and> requestFeedback \<noteq> askReferral"
  by (simp add: determineBusinessAction_call_def determineBusinessAction64_def
      determineBusinessAction_def actions_distinct actionCode_literals)

text \<open>
  C5. \<open>determineBusinessAction(0.95, "POSITIVE")\<close> is the ASK_REFERRAL action, whose
  message contains "thrilled"; \<open>determineBusinessAction(0.95, "NEGATIVE")\<close> is the
  OFFER_COUPON action, whose message contains "sorry".
\<close>

theorem scenario_095:
  "actionCode (determineBusinessAction 0.95 ''POSITIVE'') = ''ASK_REFERRAL''
   \<and> sublist ''thrilled'' (uiMessage (determineBusinessAction 0.95 ''POSITIVE''))
   \<and> actionCode (determineBusinessAction 0.95 ''NEGATIVE'') = ''OFFER_COUPON''
   \<and> sublist ''sorry'' (uiMessage (determineBusinessAction 0.95 ''NEGATIVE''))"
proof -
  have p: "determineBusinessAction 0.95 ''POSITIVE'' = askReferral"
    by (simp add: positive_action)
  have n: "determineBusinessAction 0.95 ''NEGATIVE'' = offerCoupon"
    by (simp add: negative_action)
  have t: "sublist ''thrilled'' (uiMessage askReferral)"
    unfolding sublist_def askReferral_def
    by (intro exI [of _ "''We're ''"]
        exI [of _ "'' you enjoyed your experience! Refer a friend and both of you will earn rewards.''"])
      simp
  have s: "sublist ''sorry'' (uiMessage offerCoupon)"
    unfolding sublist_def offerCoupon_def
    by (intro exI [of _ "''We are truly ''"]
        exI [of _ "'' for your negative experience. Please accept this 50% discount coupon.''"])
      simp
  show ?thesis unfolding p n using t s by (simp add: actionCode_literals)
qed

text \<open>
  C9. Polarity symmetry: for every confidence \<open>c\<close>,
  \<open>determineBusinessAction(c, "POSITIVE")\<close> and \<open>determineBusinessAction(1 - c, "NEGATIVE")\<close>
  are the same action record, both having the same normalized score under exact
  arithmetic.
\<close>

theorem polarity_symmetry:
  "normalizedScore c ''POSITIVE'' = normalizedScore (1 - c) ''NEGATIVE''
   \<and> determineBusinessAction c ''POSITIVE'' = determineBusinessAction (1 - c) ''NEGATIVE''"
  by (simp add: determineBusinessAction_def normalizedScore_def)

section \<open>Properties of the extraction\<close>

text \<open>
  C10, as amended. When the first classifier item has no score, or the score 0, the
  returned score is 0.5, and 0.5 is the confidence passed to the decision; when the item
  has a non-empty label, the returned \<open>rawLabel\<close> is that label unchanged and the
  returned \<open>label\<close> is \<open>rawLabel.toUpperCase()\<close>; when the label is absent or
  empty, \<open>rawLabel\<close> is "NEUTRAL" and \<open>label\<close> is its upper-case form.
\<close>

theorem extract_defaults:
  assumes "result = (Some d # items) # others"
  shows "(item_score d = None \<or> item_score d = Some 0
            \<longrightarrow> res_score (extractSentimentData toUpperCase result) = 0.5
              \<and> fst (decisionArguments toUpperCase result) = 0.5)
       \<and> (item_label d = Some l \<and> l \<noteq> []
            \<longrightarrow> res_rawLabel (extractSentimentData toUpperCase result) = l
              \<and> res_label (extractSentimentData toUpperCase result) = toUpperCase l
              \<and> snd (decisionArguments toUpperCase result) = l)
       \<and> (item_label d = None \<or> item_label d = Some []
            \<longrightarrow> res_rawLabel (extractSentimentData toUpperCase result) = ''NEUTRAL''
              \<and> res_label (extractSentimentData toUpperCase result) = toUpperCase ''NEUTRAL'')"
  using assms by (auto simp: extractSentimentData_def decisionArguments_def Let_def)

theorem extract_defaults_witness:
  "res_score (extractSentimentData asciiUpperCase
       [[Some \<lparr> item_label = Some ''positive'', item_score = Some 0 \<rparr>]]) = 0.5
   \<and> decisionArguments asciiUpperCase
       [[Some \<lparr> item_label = Some ''positive'', item_score = Some 0 \<rparr>]] = (0.5, ''positive'')
   \<and> res_rawLabel (extractSentimentData asciiUpperCase
       [[Some \<lparr> item_label = Some ''positive'', item_score = Some 0 \<rparr>]]) = ''positive''
   \<and> res_label (extractSentimentData asciiUpperCase
       [[Some \<lparr> item_label = Some ''positive'', item_score = Some 0 \<rparr>]]) = ''POSITIVE''
   \<and> res_rawLabel (extractSentimentData asciiUpperCase
       [[Some \<lparr> item_label = None, item_score = None \<rparr>]]) = ''NEUTRAL''"
  using extract_defaults [of "[[Some \<lparr> item_label = Some ''positive'', item_score = Some 0 \<rparr>]]"
      "\<lparr> item_label = Some ''positive'', item_score = Some 0 \<rparr>" "[]" "[]"
      asciiUpperCase "''positive''"]
    extract_defaults [of "[[Some \<lparr> item_label = None, item_score = None \<rparr>]]"
      "\<lparr> item_label = None, item_score = None \<rparr>" "[]" "[]" asciiUpperCase "''x''"]
  by (simp add: asciiUpperCase_def asciiUpperChar_def char_of_eq_iff prod_eq_iff)

text \<open>
  The claim C10 as it was stated fails: for the empty label the returned \<open>rawLabel\<close> is
  "NEUTRAL", not the label of the model.
\<close>

theorem extract_defaults_counterexample:
  "item_label \<lparr> item_label = Some [], item_score = Some 0.9 \<rparr> = Some []
   \<and> res_rawLabel (extractSentimentData asciiUpperCase
         [[Some \<lparr> item_label = Some [], item_score = Some 0.9 \<rparr>]]) = ''NEUTRAL''
   \<and> res_rawLabel (extractSentimentData asciiUpperCase
         [[Some \<lparr> item_label = Some [], item_score = Some 0.9 \<rparr>]]) \<noteq> []"
  by (simp add: extractSentimentData_def Let_def)

section \<open>Round trip of the serialized object\<close>

lemma lt16_cases: "(k::nat) < 16 \<Longrightarrow> k \<in> {0,1,2,3,4,5,6,7,8,9,10,11,12,13,14,15}"
  by auto arith

lemma hexVal_hexDigit: "k < 16 \<Longrightarrow> hexVal (hexDigit k) = Some k"
  by (drule lt16_cases) (auto simp: hexVal_def hexDigit_def)

lemma hexVal_zero: "hexVal (CHR ''0'') = Some 0"
  by (simp add: hexVal_def)

lemma hex4_control:
  fixes c :: char
  assumes "of_char c < (32::nat)"
  shows "hex4 (CHR ''0'') (CHR ''0'') (hexDigit (of_char c div 16)) (hexDigit (of_char c mod 16)) = Some c"
proof -
  let ?n = "of_char c :: nat"
  have d: "?n div 16 < 16" using assms by simp
  have m: "?n mod 16 < 16" by simp
  have n: "?n div 16 * 16 + ?n mod 16 = ?n" by simp
  have "?n < 256" by simp
  then show ?thesis
    by (simp add: hex4_def hexVal_zero hexVal_hexDigit [OF d] hexVal_hexDigit [OF m] n)
qed

lemma parseChars_quoteChar:
  "parseChars (quoteChar c @ t) = consFst c (parseChars t)"
proof -
  consider (named) "c \<in> {CHR 0x22, CHR 0x5C, CHR 0x08, CHR 0x0C, CHR 0x0A, CHR 0x0D, CHR 0x09}"
    | (control) "c \<notin> {CHR 0x22, CHR 0x5C, CHR 0x08, CHR 0x0C, CHR 0x0A, CHR 0x0D, CHR 0x09}"
        "of_char c < (32::nat)"
    | (plain) "c \<notin> {CHR 0x22, CHR 0x5C, CHR 0x08, CHR 0x0C, CHR 0x0A, CHR 0x0D, CHR 0x09}"
        "\<not> of_char c < (32::nat)"
    by blast
  then show ?thesis
  proof cases
    case named
    then show ?thesis
      by (auto simp: quoteChar_def unescape_def)
  next
    case control
    then show ?thesis
      by (simp add: quoteChar_def hex4_control)
  next
    case plain
    then show ?thesis
      by (simp add: quoteChar_def)
  qed
qed

lemma parseChars_quoted:
  "parseChars (concat (map quoteChar s) @ CHR 0x22 # rest) = Some (s, rest)"
  by (induction s) (simp_all add: parseChars_quoteChar consFst_def)

lemma isNumChar_simps [simp]:
  "\<not> isNumChar (CHR 0x22)" "\<not> isNumChar (CHR '','')" "\<not> isNumChar (CHR ''}'')"
  by (simp_all add: isNumChar_def)

lemma takeWhile_token:
  "list_all isNumChar t \<Longrightarrow> \<not> isNumChar d \<Longrightarrow> takeWhile isNumChar (t @ d # r) = t"
  by (induction t) simp_all

lemma dropWhile_token:
  "list_all isNumChar t \<Longrightarrow> \<not> isNumChar d \<Longrightarrow> dropWhile isNumChar (t @ d # r) = d # r"
  by (induction t) simp_all

lemma parseValue_stringify:
  assumes "validValue num v" and "\<not> isNumChar d"
  shows "parseValue (stringifyValue num v @ d # r) = Some (parsedOf num v, d # r)"
proof (cases v)
  case (JNum x)
  with assms have t: "num x \<noteq> []" "list_all isNumChar (num x)"
    by (simp_all add: isNumberToken_def)
  then obtain c cs where c: "num x = c # cs" by (cases "num x") auto
  with t have h: "isNumChar c" and cs: "list_all isNumChar cs" by simp_all
  from h have q: "c \<noteq> CHR 0x22" by auto
  have "parseValue (num x @ d # r) = Some (PNum (num x), d # r)"
    by (simp add: parseValue_def c q h takeWhile_token [OF cs assms(2)]
        dropWhile_token [OF cs assms(2)])
  then show ?thesis by (simp add: JNum)
next
  case (JStr s)
  then show ?thesis
    by (simp add: parseValue_def quoteJSONString_def parseChars_quoted)
qed

lemma stringifyProperty_parse:
  assumes "validValue num (snd p)"
  shows "parseMembers (Suc n) (stringifyProperty num p @ ''}'') = Some [(fst p, parsedOf num (snd p))]"
  using assms
  by (simp add: stringifyProperty_def quoteJSONString_def parseChars_quoted
      parseValue_stringify)

lemma stringifyProperty_parse_more:
  assumes "validValue num (snd p)"
  shows "parseMembers (Suc n) (stringifyProperty num p @ CHR '','' # r) =
           (case parseMembers n r of
              None \<Rightarrow> None
            | Some kvs \<Rightarrow> Some ((fst p, parsedOf num (snd p)) # kvs))"
  using assms
  by (simp add: stringifyProperty_def quoteJSONString_def parseChars_quoted
      parseValue_stringify)

lemma parseMembers_joinComma:
  assumes "obj \<noteq> []" and "list_all (\<lambda>p. validValue num (snd p)) obj" and "length obj \<le> n"
  shows "parseMembers n (joinComma (map (stringifyProperty num) obj) @ ''}'') =
           Some (map (\<lambda>p. (fst p, parsedOf num (snd p))) obj)"
  using assms
proof (induction obj arbitrary: n)
  case Nil
  then show ?case by simp
next
  case (Cons p ps)
  then obtain m where n: "n = Suc m" by (cases n) auto
  show ?case
  proof (cases ps)
    case Nil
    with Cons.prems show ?thesis
      by (simp add: n stringifyProperty_parse del: parseMembers.simps)
  next
    case (Cons q qs)
    with Cons.prems Cons.IH [of m] n show ?thesis
      by (simp add: stringifyProperty_parse_more del: parseMembers.simps)
  qed
qed

lemma length_joinComma: "length xs \<le> length (joinComma xs) + 1"
  by (induction xs rule: joinComma.induct) simp_all

lemma joinComma_property_nonempty:
  "obj \<noteq> [] \<Longrightarrow> joinComma (map (stringifyProperty num) obj) \<noteq> []"
  by (cases "map (stringifyProperty num) obj" rule: joinComma.cases)
    (auto simp: stringifyProperty_def quoteJSONString_def)

lemma JSON_parse_stringify:
  assumes "list_all (\<lambda>p. validValue num (snd p)) obj"
  shows "JSON_parse (JSON_stringify num obj) = Some (map (\<lambda>p. (fst p, parsedOf num (snd p))) obj)"
proof (cases "obj = []")
  case True
  then show ?thesis by (simp add: JSON_parse_def JSON_stringify_def)
next
  case False
  let ?m = "joinComma (map (stringifyProperty num) obj)"
  have ne: "?m \<noteq> []" using False by (rule joinComma_property_nonempty)
  have len: "length obj \<le> length (?m @ ''}'')"
    using length_joinComma [of "map (stringifyProperty num) obj"] by simp
  have "JSON_parse (JSON_stringify num obj) = parseMembers (length (?m @ ''}'')) (?m @ ''}'')"
    using ne by (simp add: JSON_parse_def JSON_stringify_def)
  also have "\<dots> = Some (map (\<lambda>p. (fst p, parsedOf num (snd p))) obj)"
    using False assms len by (rule parseMembers_joinComma)
  finally show ?thesis .
qed

section \<open>Properties of the telemetry\<close>

lemma sent_logAnalysis:
  "sent (logAnalysis e ls review sentiment label score action) =
     request (sendLogSimple e
       \<lparr> payload_ts = Some (dateNow e),
         payload_review = Some (take 5000 review),
         payload_sentiment = Some (label @ '' ('' @ toFixed1 e (score * 100) @ ''% confidence)''),
         payload_action_taken = Some (actionCode action),
         payload_meta = Some
            [(''user_id'', JStr (fst (getUserId e ls))),
             (''model'', JStr ''Xenova/distilbert-base-uncased-finetuned-sst-2-english''),
             (''sentiment_bucket'', JStr sentiment),
             (''label'', JStr label),
             (''confidence'', JNum score),
             (''user_agent'', JStr (userAgent e)),
             (''timestamp_iso'', JStr (toISOString e)),
             (''review_length'', JNum (real (length review))),
             (''business_decision'', JStr (actionCode action))] \<rparr>)"
  by (simp add: logAnalysis_def Let_def split: prod.splits)

lemma request_catchBlock: "request (catchBlock form r) = form"
  by (simp add: catchBlock_def split: sum.splits prod.splits)

lemma request_sendLogSimple:
  "request (sendLogSimple e p) =
        [(''ts'', numberToString e (real
            (case payload_ts p of
               None \<Rightarrow> dateNow e
             | Some t \<Rightarrow> if t = 0 then dateNow e else t))),
         (''review'', take 5000 (orEmpty (payload_review p))),
         (''sentiment'', orEmpty (payload_sentiment p)),
         (''action_taken'', orEmpty (payload_action_taken p)),
         (''meta'', JSON_stringify (numberToString e)
            (case payload_meta p of None \<Rightarrow> [] | Some m \<Rightarrow> m))]"
  by (simp add: sendLogSimple_def Let_def request_catchBlock)

text \<open>
  C6. The form that \<open>logAnalysis\<close> sends through \<open>sendLogSimple\<close> has the field
  \<open>action_taken\<close> equal to the action code of the chosen action, and its field
  \<open>meta\<close> is a JSON text whose parsed form has \<open>business_decision\<close> equal to the
  same action code, given that the two numbers of the record are rendered as number
  tokens. For the review "great", the label POSITIVE, the confidence 0.99 and the action
  ASK_REFERRAL both are "ASK_REFERRAL".
\<close>

theorem log_record_decision:
  assumes "isNumberToken (numberToString e score)"
    and "isNumberToken (numberToString e (real (length review)))"
  shows "\<exists>m obj.
           map_of (sent (logAnalysis e ls review sentiment label score action)) ''action_taken''
             = Some (actionCode action)
         \<and> map_of (sent (logAnalysis e ls review sentiment label score action)) ''meta'' = Some m
         \<and> JSON_parse m = Some obj
         \<and> map_of obj ''business_decision'' = Some (PStr (actionCode action))"
proof -
  let ?meta = "[(''user_id'', JStr (fst (getUserId e ls))),
             (''model'', JStr ''Xenova/distilbert-base-uncased-finetuned-sst-2-english''),
             (''sentiment_bucket'', JStr sentiment),
             (''label'', JStr label),
             (''confidence'', JNum score),
             (''user_agent'', JStr (userAgent e)),
             (''timestamp_iso'', JStr (toISOString e)),
             (''review_length'', JNum (real (length review))),
             (''business_decision'', JStr (actionCode action))]"
  have v: "list_all (\<lambda>p. validValue (numberToString e) (snd p)) ?meta"
    using assms by simp
  have a: "map_of (sent (logAnalysis e ls review sentiment label score action)) ''action_taken''
             = Some (actionCode action)"
    by (simp add: sent_logAnalysis request_sendLogSimple orEmpty_def)
  have m: "map_of (sent (logAnalysis e ls review sentiment label score action)) ''meta''
             = Some (JSON_stringify (numberToString e) ?meta)"
    by (simp add: sent_logAnalysis request_sendLogSimple)
  have p: "JSON_parse (JSON_stringify (numberToString e) ?meta)
             = Some (map (\<lambda>p. (fst p, parsedOf (numberToString e) (snd p))) ?meta)"
    using v by (rule JSON_parse_stringify)
  have b: "map_of (map (\<lambda>p. (fst p, parsedOf (numberToString e) (snd p))) ?meta)
             ''business_decision'' = Some (PStr (actionCode action))"
    by simp
  from a m p b show ?thesis by blast
qed

theorem log_record_decision_witness:
  "isNumberToken ''0.99'' \<and> isNumberToken ''5''
   \<and> (\<exists>m obj.
         map_of (sent (logAnalysis (demoEnv (Inl (JsError ''TypeError'' ''Failed to fetch'')))
                  Map.empty ''great'' ''positive'' ''POSITIVE'' 0.99 askReferral)) ''action_taken''
           = Some ''ASK_REFERRAL''
       \<and> map_of (sent (logAnalysis (demoEnv (Inl (JsError ''TypeError'' ''Failed to fetch'')))
                  Map.empty ''great'' ''positive'' ''POSITIVE'' 0.99 askReferral)) ''meta'' = Some m
       \<and> JSON_parse m = Some obj
       \<and> map_of obj ''business_decision'' = Some (PStr ''ASK_REFERRAL''))"
  using log_record_decision [of "demoEnv (Inl (JsError ''TypeError'' ''Failed to fetch''))"
      "0.99" "''great''" Map.empty "''positive''" "''POSITIVE''" askReferral]
  by (simp add: demoEnv_def isNumberToken_def isNumChar_def askReferral_def)

text \<open>
  On a review of 8-bit characters the form of \<open>logAnalysis\<close> holds the first 5000
  characters, and the model over code units gives the same field.
\<close>

lemma review_field_8bit:
  "map_of (sent (logAnalysis e ls review sentiment label score action)) ''review''
     = Some (take 5000 review)
   \<and> map_of (request (sendLogSimple e p)) ''review''
     = Some (take 5000 (orEmpty (payload_review p)))"
  by (simp add: sent_logAnalysis request_sendLogSimple orEmpty_def)

lemma length_toUSVString: "length (toUSVString s) = length s"
  by (induction s rule: toUSVString.induct) simp_all

lemma toUSVString_wellFormed: "wellFormedUTF16 s \<Longrightarrow> toUSVString s = s"
  by (induction s rule: toUSVString.induct) (auto split: if_splits)

lemma toUSVString_plain:
  "\<not> isHighSurrogate a \<Longrightarrow> \<not> isLowSurrogate a \<Longrightarrow> toUSVString (a # s) = a # toUSVString s"
  by (cases s) simp_all

lemma toUSVString_replicate:
  "\<not> isHighSurrogate a \<Longrightarrow> \<not> isLowSurrogate a
     \<Longrightarrow> toUSVString (replicate n a @ s) = replicate n a @ toUSVString s"
  by (induction n) (simp_all add: toUSVString_plain)

lemma reviewField_eq: "reviewField review = toUSVString (take 5000 review)"
  by (simp add: reviewField_def sendLogSimple_review_def logAnalysis_review_def)

lemma wellFormedUTF16_plain:
  "list_all (\<lambda>u. \<not> isHighSurrogate u \<and> \<not> isLowSurrogate u) s \<Longrightarrow> wellFormedUTF16 s"
  by (induction s rule: wellFormedUTF16.induct) simp_all

lemma codeunit_of_char_plain:
  "\<not> isHighSurrogate (of_nat (of_char c)) \<and> \<not> isLowSurrogate (of_nat (of_char c))"
proof -
  have lt: "of_char c < (256::nat)" by simp
  have "unat (of_nat (of_char c) :: codeunit) \<le> of_char c"
    by (simp add: unat_of_nat)
  then have "unat (of_nat (of_char c) :: codeunit) < 256"
    using lt by linarith
  then show ?thesis
    by (simp add: isHighSurrogate_def isLowSurrogate_def word_le_nat_alt)
qed

lemma wellFormedUTF16_codeunits: "wellFormedUTF16 (codeunits s)"
  by (rule wellFormedUTF16_plain)
    (simp add: codeunits_def list_all_iff codeunit_of_char_plain)

lemma reviewField_codeunits: "reviewField (codeunits review) = codeunits (take 5000 review)"
proof -
  have "take 5000 (codeunits review) = codeunits (take 5000 review)"
    by (simp add: codeunits_def take_map)
  then show ?thesis
    by (simp add: reviewField_eq toUSVString_wellFormed wellFormedUTF16_codeunits)
qed

text \<open>
  C7, as amended. For every review, the field \<open>review\<close> of the form is the first 5000
  code units of the review with every unpaired surrogate replaced by U+FFFD; it has at
  most 5000 code units; and when those first 5000 code units hold no unpaired surrogate,
  it is a prefix of the review, and is the review itself when the review has at most
  5000 code units.
\<close>

theorem review_field_usv:
  "reviewField review = toUSVString (take 5000 review)
   \<and> length (reviewField review) \<le> 5000
   \<and> (wellFormedUTF16 (take 5000 review) \<longrightarrow>
        reviewField review = take 5000 review
        \<and> prefix (reviewField review) review
        \<and> (length review \<le> 5000 \<longrightarrow> reviewField review = review))"
proof -
  have w: "reviewField review = take 5000 review" if "wellFormedUTF16 (take 5000 review)"
    using that by (simp add: reviewField_eq toUSVString_wellFormed)
  have l: "length (reviewField review) \<le> 5000"
    by (simp add: reviewField_eq length_toUSVString)
  show ?thesis
    using w l by (auto simp: reviewField_eq take_is_prefix)
qed

theorem review_field_usv_witness:
  "wellFormedUTF16 (take 5000 (codeunits ''great''))
   \<and> length (codeunits ''great'') \<le> 5000
   \<and> reviewField (codeunits ''great'') = codeunits ''great''"
  using review_field_usv [of "codeunits ''great''"]
  by (simp add: codeunits_def isHighSurrogate_def isLowSurrogate_def)

text \<open>
  The claim C7 as it was stated fails: a review of 4999 letters followed by one
  character outside the basic plane (a surrogate pair) is cut inside the pair, the lone
  surrogate is stored as U+FFFD, and the field is not a prefix of the review.
\<close>

theorem review_field_counterexample:
  "reviewField (replicate 4999 0x61 @ [0xD83D, 0xDE00]) = replicate 4999 0x61 @ [0xFFFD]
   \<and> \<not> prefix (reviewField (replicate 4999 0x61 @ [0xD83D, 0xDE00]))
         (replicate 4999 0x61 @ [0xD83D, 0xDE00])
   \<and> wellFormedUTF16 [0xD83D, 0xDE00]"
proof -
  have t: "take 5000 (replicate 4999 (0x61::codeunit) @ [0xD83D, 0xDE00])
      = replicate 4999 0x61 @ [0xD83D]"
    by simp
  have r: "reviewField (replicate 4999 0x61 @ [0xD83D, 0xDE00]) = replicate 4999 0x61 @ [0xFFFD]"
    unfolding reviewField_eq t
    by (simp add: toUSVString_replicate isHighSurrogate_def isLowSurrogate_def)
  show ?thesis
    unfolding r by (simp add: isHighSurrogate_def isLowSurrogate_def)
qed

lemma tryBlock_cases:
  "tryBlock e url form =
     (case fetch e url form of
        Inl err \<Rightarrow> Inl err
      | Inr res \<Rightarrow>
          if ok res then Inr ([ConsoleLog ''Logged to Google Sheets successfully''],
                    \<lparr> success = True, error = None \<rparr>)
          else (case text_body res of
               Inl err \<Rightarrow> Inl err
             | Inr t \<Rightarrow> Inl (JsError ''Error''
                  (''HTTP '' @ numberToString e (real (status res)) @ '': '' @ t))))"
  by (simp add: tryBlock_def split: sum.splits)

lemma catchBlock_contract:
  "emitterContract (fetch e url form) (catchBlock form (tryBlock e url form))"
  by (auto simp: emitterContract_def transportFailure_def tryBlock_cases catchBlock_def ok_def
      isShowError_def split: sum.splits)

lemma sendLogSimple_contract:
  "emitterContract (fetch e GAS_WEB_APP_URL (request (sendLogSimple e p))) (sendLogSimple e p)"
  by (simp add: sendLogSimple_def Let_def request_catchBlock catchBlock_contract)

lemma logged_logAnalysis:
  "list_all (\<lambda>ev. \<not> isShowError ev) (logged (logAnalysis e ls review sentiment label score action))"
proof -
  have "list_all (\<lambda>ev. \<not> isShowError ev)
          (events (sendLogSimple e p) @
            (case returned (sendLogSimple e p) of
               Inl err \<Rightarrow> [ConsoleError ''Background logging error:'' err]
             | Inr _ \<Rightarrow> []))" for p
    using sendLogSimple_contract [of e p] by (auto simp: emitterContract_def)
  then show ?thesis
    by (simp add: logAnalysis_def Let_def split: prod.splits)
qed

text \<open>
  C8. On every transport failure (a network error or a status outside 200 to 299)
  \<open>sendLogSimple\<close>, in both variants, does not throw: it returns the outcome
  \<open>{ success: false, error: reason }\<close>; on a 2xx response it returns
  \<open>{ success: true }\<close>; and neither it nor \<open>logAnalysis\<close> writes to the error
  element that the user sees.
\<close>

theorem emitter_resolves:
  "emitterContract (fetch e GAS_WEB_APP_URL (request (sendLogSimple e p))) (sendLogSimple e p)
   \<and> emitterContract (fetch e GAS_WEB_APP_URL_part000 (request (sendLogSimple_part000 e p)))
       (sendLogSimple_part000 e p)
   \<and> list_all (\<lambda>ev. \<not> isShowError ev)
       (logged (logAnalysis e ls review sentiment label score action))"
  by (simp add: sendLogSimple_def sendLogSimple_part000_def Let_def request_catchBlock
      catchBlock_contract logged_logAnalysis)

theorem emitter_resolves_witness:
  "transportFailure (Inr \<lparr> status = 500, text_body = Inr ''Internal Server Error'' \<rparr>)
   \<and> (\<exists>reason. returned (sendLogSimple
         (demoEnv (Inr \<lparr> status = 500, text_body = Inr ''Internal Server Error'' \<rparr>)) demoPayload)
         = Inr \<lparr> success = False, error = Some reason \<rparr>)
   \<and> returned (sendLogSimple
         (demoEnv (Inl (JsError ''TypeError'' ''Failed to fetch''))) demoPayload)
         = Inr \<lparr> success = False, error = Some ''TypeError: Failed to fetch'' \<rparr>
   \<and> \<not> transportFailure (Inr \<lparr> status = 200, text_body = Inr ''ok'' \<rparr>)
   \<and> returned (sendLogSimple_part000
         (demoEnv (Inr \<lparr> status = 200, text_body = Inr ''ok'' \<rparr>)) demoPayload)
         = Inr \<lparr> success = True, error = None \<rparr>"
  using emitter_resolves [of "demoEnv (Inr \<lparr> status = 500, text_body = Inr ''Internal Server Error'' \<rparr>)" demoPayload]
    emitter_resolves [of "demoEnv (Inl (JsError ''TypeError'' ''Failed to fetch''))" demoPayload]
    emitter_resolves [of "demoEnv (Inr \<lparr> status = 200, text_body = Inr ''ok'' \<rparr>)" demoPayload]
  by (simp add: emitterContract_def transportFailure_def demoEnv_def errorToString_def)

end
